theory Spec2Isabelle
  imports Complex_Main
begin

section \<open>Python values, exceptions and tensors\<close>

text \<open>
  The arguments that \<^verbatim>\<open>aorun/layers.py\<close> receives as dimensions are untyped Python
  values. Three kinds matter for the layer code: \<^verbatim>\<open>None\<close> (the default of
  \<^verbatim>\<open>Layer.__init__\<close>), an \<^verbatim>\<open>int\<close>, and a \<^verbatim>\<open>float\<close> as a representative of the
  non-integer values.
\<close>

datatype pyval = PyNone | PyInt int | PyFloat real

text \<open>Every \<^verbatim>\<open>raise\<close> of the Python code is a value of this type.\<close>

datatype error = TypeError | AttributeError | RuntimeError | AssertionError | PreconditionViolation

text \<open>Python truthiness, as used by \<^verbatim>\<open>if self.input_dim:\<close>.\<close>

fun truthy :: "pyval \<Rightarrow> bool" where
  "truthy PyNone = False"
| "truthy (PyInt n) = (n \<noteq> 0)"
| "truthy (PyFloat r) = (r \<noteq> 0)"

text \<open>The test \<^verbatim>\<open>type(v) is int\<close>.\<close>

fun type_is_int :: "pyval \<Rightarrow> bool" where
  "type_is_int (PyInt n) = True"
| "type_is_int v = False"

fun int_of :: "pyval \<Rightarrow> int" where
  "int_of (PyInt n) = n"
| "int_of v = 0"

text \<open>
  A tensor is its shape and its entries in row-major order, as torch stores a contiguous
  tensor. Entries are real numbers: rounding, overflow and NaN of the machine floats are
  outside this model.
\<close>

datatype tensor = Tensor (shape: "nat list") (elems: "real list")

definition wf_tensor :: "tensor \<Rightarrow> bool" where
  "wf_tensor t = (length (elems t) = prod_list (shape t))"

definition bind_e :: "error + 'a \<Rightarrow> ('a \<Rightarrow> error + 'b) \<Rightarrow> error + 'b" where
  "bind_e m f = (case m of Inl e \<Rightarrow> Inl e | Inr x \<Rightarrow> f x)"

text \<open>Reading an attribute that was never assigned raises \<^verbatim>\<open>AttributeError\<close>.\<close>

definition attr :: "'a option \<Rightarrow> error + 'a" where
  "attr a = (case a of None \<Rightarrow> Inl AttributeError | Some x \<Rightarrow> Inr x)"

subsection \<open>The torch operations the layer calls\<close>

text \<open>
  \<^verbatim>\<open>torch.zeros(d1, ..., dn)\<close>: every size must be an int (else \<^verbatim>\<open>TypeError\<close>) and
  non-negative (else \<^verbatim>\<open>RuntimeError\<close>).
\<close>

definition torch_zeros :: "pyval list \<Rightarrow> error + tensor" where
  "torch_zeros ds =
     (if \<not> list_all type_is_int ds then Inl TypeError
      else if \<not> list_all (\<lambda>d. 0 \<le> int_of d) ds then Inl RuntimeError
      else Inr (Tensor (map (\<lambda>d. nat (int_of d)) ds)
                  (replicate (prod_list (map (\<lambda>d. nat (int_of d)) ds)) 0)))"

text \<open>
  The ambient random generator is the infinite sequence of standard-normal variates it
  will still produce. \<^verbatim>\<open>torch.normal(means, std=s)\<close> returns one draw per entry of
  \<^verbatim>\<open>means\<close>, the entry's mean plus \<open>s\<close> times the next unused variate, and leaves the
  generator advanced past the variates it consumed. Which variate torch puts into which
  entry is an assumption of this model; the properties below use the draws and the
  generator only as what the call returns.
\<close>

type_synonym rng = "nat \<Rightarrow> real"

definition advance :: "nat \<Rightarrow> rng \<Rightarrow> rng" where
  "advance n g = (\<lambda>i. g (i + n))"

definition torch_normal :: "tensor \<Rightarrow> real \<Rightarrow> rng \<Rightarrow> tensor \<times> rng" where
  "torch_normal means std g =
     (Tensor (shape means)
        (map (\<lambda>i. elems means ! i + std * g i) [0..<length (elems means)]),
      advance (length (elems means)) g)"

text \<open>\<^verbatim>\<open>torch.log1p(torch.exp(rho))\<close>, entry by entry.\<close>

definition softplus :: "real \<Rightarrow> real" where
  "softplus rho = ln (1 + exp rho)"

definition softplus_t :: "tensor \<Rightarrow> tensor" where
  "softplus_t t = Tensor (shape t) (map softplus (elems t))"









text \<open>
  Entrywise arithmetic of two tensors. The layer only ever combines tensors of one
  shape; operands of different shapes are rejected (broadcasting between the operands
  of \<^verbatim>\<open>+\<close> and \<^verbatim>\<open>*\<close> is not modelled).
\<close>

definition pointwise :: "(real \<Rightarrow> real \<Rightarrow> real) \<Rightarrow> tensor \<Rightarrow> tensor \<Rightarrow> error + tensor" where
  "pointwise f a b =
     (if shape a = shape b then Inr (Tensor (shape a) (map2 f (elems a) (elems b)))
      else Inl RuntimeError)"

definition t_add :: "tensor \<Rightarrow> tensor \<Rightarrow> error + tensor" where
  "t_add = pointwise (+)"

definition t_mul :: "tensor \<Rightarrow> tensor \<Rightarrow> error + tensor" where
  "t_mul = pointwise (*)"

definition t_sub :: "tensor \<Rightarrow> tensor \<Rightarrow> error + tensor" where
  "t_sub = pointwise (-)"

text \<open>
  \<^verbatim>\<open>X @ W\<close> for a 2-D batch \<open>X\<close> of shape \<open>[n, k]\<close> and a 2-D \<open>W\<close> of shape \<open>[k, m]\<close>:
  entry \<open>(i, c)\<close>, stored at position \<open>i * m + c\<close>, is the sum over \<open>j < k\<close> of
  \<open>X[i, j] * W[j, c]\<close>. Other ranks lie outside the layer's contract and are rejected
  here, as is a mismatch of the inner dimensions.
\<close>

definition matmul :: "tensor \<Rightarrow> tensor \<Rightarrow> error + tensor" where
  "matmul X W =
     (case (shape X, shape W) of
        ([n, k], [k', m]) \<Rightarrow>
          (if k = k' then
             Inr (Tensor [n, m]
               (map (\<lambda>p. \<Sum>j\<leftarrow>[0..<k]. elems X ! ((p div m) * k + j) * elems W ! (j * m + p mod m))
                  [0..<n * m]))
           else Inl RuntimeError)
      | _ \<Rightarrow> Inl RuntimeError)"

text \<open>
  \<^verbatim>\<open>b.expand_as(XW)\<close>: a vector of shape \<open>[m]\<close> is repeated along the rows of a target of
  shape \<open>[n, m]\<close>; a tensor that already has the target's shape is returned as it is.
  Other combinations are rejected here.
\<close>

definition expand_as :: "tensor \<Rightarrow> tensor \<Rightarrow> error + tensor" where
  "expand_as b T =
     (if shape b = shape T then Inr b
      else (case (shape b, shape T) of
        ([m], [n, m']) \<Rightarrow>
          (if m = m' then Inr (Tensor [n, m] (map (\<lambda>p. elems b ! (p mod m)) [0..<n * m]))
           else Inl RuntimeError)
      | _ \<Rightarrow> Inl RuntimeError))"

text \<open>
  Modelled from the spec: \<^verbatim>\<open>utils.to_variable\<close> of \<^verbatim>\<open>aorun/utils.py\<close> is missing.
  The forward contract (section 4.1) takes the input as a tensor; the conversion wraps
  it for automatic differentiation and leaves the values as they are.
\<close>

definition to_variable :: "tensor \<Rightarrow> tensor" where
  "to_variable X = X"

section \<open>The layers of \<^verbatim>\<open>aorun/layers.py\<close>\<close>

text \<open>
  An initializer is called as \<^verbatim>\<open>init(shape, fan_in, fan_out)\<close>. The module
  \<^verbatim>\<open>aorun/initializers.py\<close> is missing and the initializer of a layer is pluggable,
  so an initializer is a parameter: it may raise, it may consume random variates, and
  it returns a tensor.
\<close>

type_synonym initializer = "pyval list \<Rightarrow> pyval \<Rightarrow> pyval \<Rightarrow> rng \<Rightarrow> (error + tensor) \<times> rng"

text \<open>
  The attributes of the classes, a record per class. \<^verbatim>\<open>Layer\<close> holds what
  \<^verbatim>\<open>Layer.__init__\<close> assigns. \<^verbatim>\<open>Dense\<close> and \<^verbatim>\<open>ProbabilisticDense\<close> both assign
  \<^verbatim>\<open>units\<close> and \<^verbatim>\<open>output_dim\<close> in their constructors; the record \<open>UnitLayer\<close> holds
  this common part. An attribute that a later method creates is an option, \<open>None\<close>
  while it does not exist. The attributes \<^verbatim>\<open>self.W\<close> and \<^verbatim>\<open>self.b\<close> of
  \<^verbatim>\<open>ProbabilisticDense\<close> are the fields \<open>sample_W\<close> and \<open>sample_b\<close>.
\<close>

record Layer =
  input_dim :: pyval
  init :: initializer

record UnitLayer = Layer +
  units :: int
  output_dim :: int

text \<open>
  \<^verbatim>\<open>Dense.layer\<close> is a \<^verbatim>\<open>torch.nn.Linear(input_dim, units)\<close>, kept as the two
  arguments of its constructor.
\<close>

record Dense = UnitLayer +
  layer :: "(int \<times> int) option"

record ProbabilisticDense = UnitLayer +
  W_mu :: "tensor option"
  W_rho :: "tensor option"
  b_mu :: "tensor option"
  b_rho :: "tensor option"
  sample_W :: "tensor option"
  sample_b :: "tensor option"

subsection \<open>Dense\<close>

text \<open>
  \<^verbatim>\<open>
  def build(self, input_dim):
      assert type(input_dim) is int
      self.input_dim = input_dim
      self.layer = TorchDense(self.input_dim, self.units)
  \<close>
\<close>

definition Dense_build :: "Dense \<Rightarrow> pyval \<Rightarrow> (error + unit) \<times> Dense" where
  "Dense_build self d =
     (if \<not> type_is_int d then (Inl AssertionError, self)
      else (Inr (), self\<lparr>input_dim := d, layer := Some (int_of d, units self)\<rparr>))"

subsection \<open>ProbabilisticDense\<close>

text \<open>
  \<^verbatim>\<open>
  def build(self, input_dim):
      self.input_dim = input_dim
      W_shape = [self.input_dim, self.output_dim]
      b_shape = [self.output_dim]
      self.W_mu = self.init(W_shape, self.input_dim, self.output_dim)
      self.W_rho = self.init(W_shape, self.input_dim, self.output_dim)
      self.b_mu = self.init(b_shape, self.input_dim, self.output_dim)
      self.b_rho = self.init(b_shape, self.input_dim, self.output_dim)
  \<close>
  An exception of the initializer leaves the attributes assigned so far.
\<close>

definition ProbabilisticDense_build ::
  "ProbabilisticDense \<Rightarrow> pyval \<Rightarrow> rng \<Rightarrow> (error + unit) \<times> ProbabilisticDense \<times> rng" where
  "ProbabilisticDense_build self d g =
     (let s0 = self\<lparr>input_dim := d\<rparr>;
          W_shape = [input_dim s0, PyInt (output_dim s0)];
          b_shape = [PyInt (output_dim s0)]
      in case init s0 W_shape (input_dim s0) (PyInt (output_dim s0)) g of
           (Inl e, g1) \<Rightarrow> (Inl e, s0, g1)
         | (Inr t1, g1) \<Rightarrow>
      (let s1 = s0\<lparr>W_mu := Some t1\<rparr>
       in case init s1 W_shape (input_dim s1) (PyInt (output_dim s1)) g1 of
           (Inl e, g2) \<Rightarrow> (Inl e, s1, g2)
         | (Inr t2, g2) \<Rightarrow>
      (let s2 = s1\<lparr>W_rho := Some t2\<rparr>
       in case init s2 b_shape (input_dim s2) (PyInt (output_dim s2)) g2 of
           (Inl e, g3) \<Rightarrow> (Inl e, s2, g3)
         | (Inr t3, g3) \<Rightarrow>
      (let s3 = s2\<lparr>b_mu := Some t3\<rparr>
       in case init s3 b_shape (input_dim s3) (PyInt (output_dim s3)) g3 of
           (Inl e, g4) \<Rightarrow> (Inl e, s3, g4)
         | (Inr t4, g4) \<Rightarrow> (Inr (), s3\<lparr>b_rho := Some t4\<rparr>, g4)))))"

text \<open>
  \<^verbatim>\<open>
  def __init__(self, units, init='glorot_uniform', *args, **kwargs):
      super(ProbabilisticDense, self).__init__(*args, **kwargs)
      self.units = units
      self.output_dim = units
      self.init = initializers.get(init)
      if self.input_dim:
          self.build(self.input_dim)
  \<close>
  The initializer is passed already resolved.
\<close>

definition ProbabilisticDense_init ::
  "int \<Rightarrow> initializer \<Rightarrow> pyval \<Rightarrow> rng \<Rightarrow> (error + unit) \<times> ProbabilisticDense \<times> rng" where
  "ProbabilisticDense_init u ini d g =
     (let self = \<lparr>input_dim = d, init = ini, units = u, output_dim = u,
                  W_mu = None, W_rho = None, b_mu = None, b_rho = None,
                  sample_W = None, sample_b = None\<rparr>
      in if truthy (input_dim self) then ProbabilisticDense_build self (input_dim self) g
         else (Inr (), self, g))"

text \<open>
  \<^verbatim>\<open>
  @property
  def params(self):
      return (self.W_mu, self.W_rho, self.b_mu, self.b_rho)
  \<close>
\<close>

definition ProbabilisticDense_params :: "ProbabilisticDense \<Rightarrow> error + tensor list" where
  "ProbabilisticDense_params self =
     bind_e (attr (W_mu self)) (\<lambda>wm.
     bind_e (attr (W_rho self)) (\<lambda>wr.
     bind_e (attr (b_mu self)) (\<lambda>bm.
     bind_e (attr (b_rho self)) (\<lambda>br. Inr [wm, wr, bm, br]))))"

text \<open>The prior's scale, \<^verbatim>\<open>sigma_prior = math.exp(-3)\<close>.\<close>

definition sigma_prior :: real where
  "sigma_prior = exp (- 3)"

text \<open>
  The right-hand side of lines 94 and 97,
  \<^verbatim>\<open>self.W_mu + torch.log1p(torch.exp(self.W_rho)) * W_eps\<close>: the two attributes are
  read first, in this order.
\<close>

definition reparameterize :: "tensor option \<Rightarrow> tensor option \<Rightarrow> tensor \<Rightarrow> error + tensor" where
  "reparameterize mu rho eps =
     bind_e (attr mu) (\<lambda>m.
     bind_e (attr rho) (\<lambda>r.
     bind_e (t_mul (softplus_t r) eps) (\<lambda>se. t_add m se)))"

text \<open>
  Lines 92--93 and 95--96: a tensor of zeros of the noise's shape, then
  \<^verbatim>\<open>torch.normal(zeros, std=sigma_prior)\<close>.
\<close>

definition draw_eps :: "pyval list \<Rightarrow> rng \<Rightarrow> (error + tensor) \<times> rng" where
  "draw_eps ds g =
     (case torch_zeros ds of
        Inl e \<Rightarrow> (Inl e, g)
      | Inr z \<Rightarrow> (case torch_normal z sigma_prior g of (eps, g') \<Rightarrow> (Inr eps, g')))"

text \<open>
  \<^verbatim>\<open>
  def forward(self, X):
      X = super(ProbabilisticDense, self).forward(X)
      sigma_prior = math.exp(-3)
      W_eps = Variable(torch.zeros(self.input_dim, self.output_dim))
      W_eps = torch.normal(W_eps, std=sigma_prior)
      self.W = W = self.W_mu + torch.log1p(torch.exp(self.W_rho)) * W_eps
      b_eps = Variable(torch.zeros(self.output_dim))
      b_eps = torch.normal(b_eps, std=sigma_prior)
      self.b = b = self.b_mu + torch.log1p(torch.exp(self.b_rho)) * b_eps
      XW = X @ W
      return XW + b.expand_as(XW)
  \<close>
  The result is the returned tensor or the exception, the layer as the call leaves it,
  and the generator as the call leaves it.
\<close>

definition ProbabilisticDense_forward ::
  "ProbabilisticDense \<Rightarrow> tensor \<Rightarrow> rng \<Rightarrow> (error + tensor) \<times> ProbabilisticDense \<times> rng" where
  "ProbabilisticDense_forward self X0 g =
     (let X = to_variable X0 in
      case draw_eps [input_dim self, PyInt (output_dim self)] g of
        (Inl e, g1) \<Rightarrow> (Inl e, self, g1)
      | (Inr W_eps, g1) \<Rightarrow>
      (case reparameterize (W_mu self) (W_rho self) W_eps of
        Inl e \<Rightarrow> (Inl e, self, g1)
      | Inr W \<Rightarrow>
      (let s1 = self\<lparr>sample_W := Some W\<rparr> in
       case draw_eps [PyInt (output_dim s1)] g1 of
        (Inl e, g2) \<Rightarrow> (Inl e, s1, g2)
      | (Inr b_eps, g2) \<Rightarrow>
      (case reparameterize (b_mu s1) (b_rho s1) b_eps of
        Inl e \<Rightarrow> (Inl e, s1, g2)
      | Inr b \<Rightarrow>
      (let s2 = s1\<lparr>sample_b := Some b\<rparr> in
       case matmul X W of
        Inl e \<Rightarrow> (Inl e, s2, g2)
      | Inr XW \<Rightarrow>
        (bind_e (expand_as b XW) (\<lambda>be. t_add XW be), s2, g2))))))"

section \<open>The losses\<close>

text \<open>
  The modules \<^verbatim>\<open>aorun/losses.py\<close> and \<^verbatim>\<open>aorun/models.py\<close> are not among the
  sources; the definitions of this section follow the specification.
\<close>

text \<open>
  Modelled from the spec: the \<^verbatim>\<open>Model\<close> container of \<^verbatim>\<open>aorun/models.py\<close> is
  missing. The loss only enumerates the model's layers and tells the Bayesian ones
  (\<^verbatim>\<open>ProbabilisticDense\<close>) from the conventional ones, which it skips.
\<close>

datatype model_layer = Bayesian ProbabilisticDense | Conventional

type_synonym Model = "model_layer list"

fun bayesian_layers :: "Model \<Rightarrow> ProbabilisticDense list" where
  "bayesian_layers [] = []"
| "bayesian_layers (Bayesian l # ls) = l # bayesian_layers ls"
| "bayesian_layers (Conventional # ls) = bayesian_layers ls"

text \<open>
  Modelled from the spec: \<^verbatim>\<open>log_gaussian\<close> of \<^verbatim>\<open>aorun/losses.py\<close> is missing. Section
  4.2: the elementwise log-density of \<open>x\<close> under \<open>Normal(mu, sigma)\<close>,
  \<^verbatim>\<open>-log(sigma) - 0.5*log(2*pi) - (x - mu)^2 / (2*sigma^2)\<close>, of broadcast-compatible
  arguments. Of broadcasting, the case the loss needs is modelled: a tensor of shape
  \<open>[]\<close> (a scalar) is repeated to the shape of the other arguments.
\<close>

definition log_gaussian1 :: "real \<Rightarrow> real \<Rightarrow> real \<Rightarrow> real" where
  "log_gaussian1 x mu sigma = - ln sigma - 0.5 * ln (2 * pi) - (x - mu)\<^sup>2 / (2 * sigma\<^sup>2)"

definition scalar :: "real \<Rightarrow> tensor" where
  "scalar v = Tensor [] [v]"

definition common_shape :: "nat list list \<Rightarrow> nat list" where
  "common_shape ss = (case filter (\<lambda>s. s \<noteq> []) ss of [] \<Rightarrow> [] | s # _ \<Rightarrow> s)"

definition broadcast_to :: "nat list \<Rightarrow> tensor \<Rightarrow> real list option" where
  "broadcast_to s t =
     (if shape t = s then Some (elems t)
      else if shape t = [] \<and> length (elems t) = 1
        then Some (replicate (prod_list s) (elems t ! 0))
      else None)"

definition log_gaussian :: "tensor \<Rightarrow> tensor \<Rightarrow> tensor \<Rightarrow> error + tensor" where
  "log_gaussian x mu sigma =
     (let s = common_shape [shape x, shape mu, shape sigma] in
      case (broadcast_to s x, broadcast_to s mu, broadcast_to s sigma) of
        (Some xs, Some ms, Some ss) \<Rightarrow>
          Inr (Tensor s (map (\<lambda>i. log_gaussian1 (xs ! i) (ms ! i) (ss ! i)) [0..<prod_list s]))
      | _ \<Rightarrow> Inl RuntimeError)"

text \<open>
  Modelled from the spec: the reduction of section 4.3, the mean across the entries of a
  tensor. The mean of no entries is undefined (NaN in floating point, which the reals do
  not have): the model rejects it.
\<close>

definition mean :: "real list \<Rightarrow> real" where
  "mean xs = sum_list xs / real (length xs)"

definition mean_t :: "tensor \<Rightarrow> error + real" where
  "mean_t t = (if elems t = [] then Inl RuntimeError else Inr (mean (elems t)))"

text \<open>
  Modelled from the spec: \<^verbatim>\<open>variational_loss\<close> of \<^verbatim>\<open>aorun/losses.py\<close> is missing.
  Section 4.3: for each Bayesian layer and each of its two sampled tensors, the
  log-density helper is evaluated with \<open>(sample, mu, softplus(rho))\<close> and with
  \<open>(sample, 0, prior_sigma)\<close>; the difference, reduced to its mean, is the tensor's
  contribution. A layer with no retained sample is a precondition violation. The loss is
  \<^verbatim>\<open>-log_likelihood(true, predicted)\<close> plus the sum of the contributions.
\<close>

definition retained :: "tensor option \<Rightarrow> error + tensor" where
  "retained a = (case a of None \<Rightarrow> Inl PreconditionViolation | Some x \<Rightarrow> Inr x)"

definition tensor_complexity :: "tensor \<Rightarrow> tensor \<Rightarrow> tensor \<Rightarrow> error + real" where
  "tensor_complexity sample mu rho =
     bind_e (log_gaussian sample mu (softplus_t rho)) (\<lambda>q.
     bind_e (log_gaussian sample (scalar 0) (scalar sigma_prior)) (\<lambda>p.
     bind_e (t_sub q p) mean_t))"

definition layer_complexity :: "ProbabilisticDense \<Rightarrow> error + real" where
  "layer_complexity l =
     bind_e (retained (sample_W l)) (\<lambda>W.
     bind_e (attr (W_mu l)) (\<lambda>wm.
     bind_e (attr (W_rho l)) (\<lambda>wr.
     bind_e (tensor_complexity W wm wr) (\<lambda>cW.
     bind_e (retained (sample_b l)) (\<lambda>b.
     bind_e (attr (b_mu l)) (\<lambda>bm.
     bind_e (attr (b_rho l)) (\<lambda>br.
     bind_e (tensor_complexity b bm br) (\<lambda>cb. Inr (cW + cb)))))))))"

fun complexity_term :: "Model \<Rightarrow> error + real" where
  "complexity_term [] = Inr 0"
| "complexity_term (Bayesian l # ls) =
     bind_e (layer_complexity l) (\<lambda>c.
     bind_e (complexity_term ls) (\<lambda>r. Inr (c + r)))"
| "complexity_term (Conventional # ls) = complexity_term ls"

definition data_term :: "(tensor \<Rightarrow> tensor \<Rightarrow> real) \<Rightarrow> tensor \<Rightarrow> tensor \<Rightarrow> real" where
  "data_term log_likelihood true predicted = - log_likelihood true predicted"

definition variational_loss ::
  "tensor \<Rightarrow> tensor \<Rightarrow> Model \<Rightarrow> (tensor \<Rightarrow> tensor \<Rightarrow> real) \<Rightarrow> error + real" where
  "variational_loss true predicted model log_likelihood =
     bind_e (complexity_term model) (\<lambda>c.
       Inr (data_term log_likelihood true predicted + c))"

section \<open>Closed forms and examples for the properties\<close>

text \<open>
  The definitions of this section are not code of the repository. They name the values
  that the properties below compare the code with, and the concrete layers on which the
  properties are instantiated.
\<close>

text \<open>
  The noise tensor of shape \<open>s\<close> that \<open>draw_eps\<close> returns on generator \<open>g\<close>: entry \<open>i\<close> is
  \<open>sigma_prior\<close> times the \<open>i\<close>-th unused variate.
\<close>

definition noise :: "nat list \<Rightarrow> rng \<Rightarrow> tensor" where
  "noise s g = Tensor s (map (\<lambda>i. sigma_prior * g i) [0..<prod_list s])"

text \<open>The reparameterized draw \<open>mu + softplus(rho) * eps\<close>, entry by entry.\<close>

definition sampled :: "tensor \<Rightarrow> tensor \<Rightarrow> tensor \<Rightarrow> tensor" where
  "sampled mu rho eps =
     Tensor (shape mu) (map2 (+) (elems mu) (map2 (*) (map softplus (elems rho)) (elems eps)))"

text \<open>
  A layer that has been built for input width \<open>d\<close> and output width \<open>u\<close>: the four
  parameters exist and have the shapes that \<^verbatim>\<open>build\<close> requests from the initializer.
\<close>

definition built :: "nat \<Rightarrow> nat \<Rightarrow> ProbabilisticDense \<Rightarrow> bool" where
  "built d u l =
     (input_dim l = PyInt (int d) \<and> output_dim l = int u \<and>
      (case (W_mu l, W_rho l, b_mu l, b_rho l) of
         (Some wm, Some wr, Some bm, Some br) \<Rightarrow>
           shape wm = [d, u] \<and> shape wr = [d, u] \<and> shape bm = [u] \<and> shape br = [u] \<and>
           wf_tensor wm \<and> wf_tensor wr \<and> wf_tensor bm \<and> wf_tensor br
       | _ \<Rightarrow> False))"

text \<open>
  The contract of an initializer (section 4.1 of the specification, ``deterministic
  shape''): a tensor it returns for a shape of non-negative integers has that shape.
\<close>

definition honours_shape :: "initializer \<Rightarrow> bool" where
  "honours_shape ini =
     (\<forall>s fan_in fan_out g t g'.
        ini (map (\<lambda>n. PyInt (int n)) s) fan_in fan_out g = (Inr t, g') \<longrightarrow>
        shape t = s \<and> wf_tensor t)"

text \<open>
  The layer is in the state that a successful forward pass leaves, on a layer built for
  positive widths.
\<close>

definition forward_has_run :: "ProbabilisticDense \<Rightarrow> bool" where
  "forward_has_run l =
     (\<exists>l0 d u X g out g'. built d u l0 \<and> 0 < d \<and> 0 < u \<and>
        ProbabilisticDense_forward l0 X g = (Inr out, l, g'))"

text \<open>
  The contribution of one sampled tensor to the complexity term, as the claim words it:
  the mean of the posterior log-density at the sample minus the mean of the prior
  log-density at the sample.
\<close>

definition sample_term :: "tensor \<Rightarrow> tensor \<Rightarrow> tensor \<Rightarrow> real" where
  "sample_term sample mu rho =
     (let N = length (elems sample) in
      (\<Sum>i\<leftarrow>[0..<N]. log_gaussian1 (elems sample ! i) (elems mu ! i) (softplus (elems rho ! i)))
         / real N
      - (\<Sum>i\<leftarrow>[0..<N]. log_gaussian1 (elems sample ! i) 0 (exp (- 3))) / real N)"

definition layer_term :: "ProbabilisticDense \<Rightarrow> real" where
  "layer_term l =
     sample_term (the (sample_W l)) (the (W_mu l)) (the (W_rho l))
     + sample_term (the (sample_b l)) (the (b_mu l)) (the (b_rho l))"

text \<open>
  The loss reads a layer's four parameters and two samples. \<open>reconfigure\<close> replaces
  everything else a layer holds.
\<close>

fun reconfigure :: "pyval \<Rightarrow> initializer \<Rightarrow> int \<Rightarrow> int \<Rightarrow> model_layer \<Rightarrow> model_layer" where
  "reconfigure d i u od (Bayesian l) =
     Bayesian (l\<lparr>input_dim := d, init := i, units := u, output_dim := od\<rparr>)"
| "reconfigure d i u od Conventional = Conventional"

text \<open>Two initializers: one fills the requested shape with a constant, one ignores the
  requested shape and returns a fixed tensor.\<close>

definition constant_init :: "real \<Rightarrow> initializer" where
  "constant_init v sh fan_in fan_out g =
     (bind_e (torch_zeros sh) (\<lambda>z. Inr (Tensor (shape z) (map (\<lambda>x. v) (elems z)))), g)"

definition fixed_init :: "tensor \<Rightarrow> initializer" where
  "fixed_init t sh fan_in fan_out g = (Inr t, g)"

text \<open>
  \<^verbatim>\<open>ProbabilisticDense(1)\<close> before any build, \<^verbatim>\<open>ProbabilisticDense(1, input_dim=4)\<close>
  as the constructor leaves it, a batch of two inputs and a generator.
\<close>

definition ex_unbuilt :: ProbabilisticDense where
  "ex_unbuilt = \<lparr>input_dim = PyNone, init = constant_init (1 / 2), units = 1, output_dim = 1,
                  W_mu = None, W_rho = None, b_mu = None, b_rho = None,
                  sample_W = None, sample_b = None\<rparr>"

definition ex_layer :: ProbabilisticDense where
  "ex_layer = \<lparr>input_dim = PyInt 4, init = constant_init (1 / 2), units = 1, output_dim = 1,
                W_mu = Some (Tensor [4, 1] [1 / 2, 1 / 2, 1 / 2, 1 / 2]),
                W_rho = Some (Tensor [4, 1] [1 / 2, 1 / 2, 1 / 2, 1 / 2]),
                b_mu = Some (Tensor [1] [1 / 2]), b_rho = Some (Tensor [1] [1 / 2]),
                sample_W = None, sample_b = None\<rparr>"

definition ex_X :: tensor where
  "ex_X = Tensor [2, 4] [1, 2, 3, 4, 5, 6, 7, 8]"

definition ex_g :: rng where
  "ex_g = (\<lambda>i. real i - 2)"

section \<open>Auxiliary facts\<close>

subsection \<open>Exceptions and attributes\<close>

lemma bind_e_simps [simp]:
  "bind_e (Inl e) f = Inl e"
  "bind_e (Inr x) f = f x"
  by (simp_all add: bind_e_def)

lemma attr_simps [simp]:
  "attr None = Inl AttributeError"
  "attr (Some x) = Inr x"
  by (simp_all add: attr_def)

lemma retained_simps [simp]:
  "retained None = Inl PreconditionViolation"
  "retained (Some x) = Inr x"
  by (simp_all add: retained_def)

subsection \<open>Positions in a row-major matrix\<close>

lemma idx_lt: "i < (n::nat) \<Longrightarrow> c < u \<Longrightarrow> i * u + c < n * u"
proof -
  assume a: "i < n" "c < u"
  then have "i * u + c < i * u + u" by simp
  also have "\<dots> = Suc i * u" by simp
  also have "\<dots> \<le> n * u" using a by (intro mult_le_mono1) simp
  finally show ?thesis .
qed

lemma idx_div: "c < (u::nat) \<Longrightarrow> (i * u + c) div u = i"
  by simp

lemma idx_mod: "c < (u::nat) \<Longrightarrow> (i * u + c) mod u = c"
  by simp

subsection \<open>Noise and samples\<close>


lemma advance_advance: "advance m (advance n g) = advance (n + m) g"
  by (simp add: advance_def fun_eq_iff ac_simps)

lemma torch_zeros_nat:
  "torch_zeros (map (\<lambda>n. PyInt (int n)) s) = Inr (Tensor s (replicate (prod_list s) 0))"
  by (simp add: torch_zeros_def list_all_iff o_def)

lemma draw_eps_nat:
  "draw_eps (map (\<lambda>n. PyInt (int n)) s) g = (Inr (noise s g), advance (prod_list s) g)"
  by (simp add: draw_eps_def torch_zeros_nat torch_normal_def noise_def)

lemma noise_shape [simp]: "shape (noise s g) = s"
  by (simp add: noise_def)

lemma noise_length [simp]: "length (elems (noise s g)) = prod_list s"
  by (simp add: noise_def)

lemma noise_nth: "p < prod_list s \<Longrightarrow> elems (noise s g) ! p = sigma_prior * g p"
  by (simp add: noise_def)

lemma sampled_shape [simp]: "shape (sampled mu rho eps) = shape mu"
  by (simp add: sampled_def)

lemma sampled_length:
  assumes "length (elems mu) = N" "length (elems rho) = N" "length (elems eps) = N"
  shows "length (elems (sampled mu rho eps)) = N"
  using assms by (simp add: sampled_def)

lemma sampled_nth:
  assumes "length (elems mu) = N" "length (elems rho) = N" "length (elems eps) = N" "p < N"
  shows "elems (sampled mu rho eps) ! p
       = elems mu ! p + softplus (elems rho ! p) * elems eps ! p"
  using assms by (simp add: sampled_def)

lemma reparameterize_ok:
  "shape rho = shape mu \<Longrightarrow> shape eps = shape mu \<Longrightarrow>
   reparameterize (Some mu) (Some rho) eps = Inr (sampled mu rho eps)"
  by (simp add: reparameterize_def t_mul_def t_add_def pointwise_def softplus_t_def sampled_def)

subsection \<open>The forward pass\<close>

lemma builtE:
  assumes "built d u l"
  obtains wm wr bm br where "input_dim l = PyInt (int d)" "output_dim l = int u"
    "W_mu l = Some wm" "W_rho l = Some wr" "b_mu l = Some bm" "b_rho l = Some br"
    "shape wm = [d, u]" "shape wr = [d, u]" "shape bm = [u]" "shape br = [u]"
    "wf_tensor wm" "wf_tensor wr" "wf_tensor bm" "wf_tensor br"
  using assms by (auto simp: built_def split: option.splits)

lemma forward_explicit:
  assumes "input_dim l = PyInt (int d)" "output_dim l = int u"
    "W_mu l = Some wm" "W_rho l = Some wr" "b_mu l = Some bm" "b_rho l = Some br"
    "shape wm = [d, u]" "shape wr = [d, u]" "shape bm = [u]" "shape br = [u]"
  shows "ProbabilisticDense_forward l X g =
    (bind_e (matmul X (sampled wm wr (noise [d, u] g))) (\<lambda>XW.
       bind_e (expand_as (sampled bm br (noise [u] (advance (d * u) g))) XW) (\<lambda>be. t_add XW be)),
     l\<lparr>sample_W := Some (sampled wm wr (noise [d, u] g)),
        sample_b := Some (sampled bm br (noise [u] (advance (d * u) g)))\<rparr>,
     advance (d * u + u) g)"
proof -
  have dW: "draw_eps [PyInt (int d), PyInt (int u)] g = (Inr (noise [d, u] g), advance (d * u) g)"
    using draw_eps_nat [of "[d, u]" g] by simp
  have db: "draw_eps [PyInt (int u)] g' = (Inr (noise [u] g'), advance u g')" for g'
    using draw_eps_nat [of "[u]" g'] by simp
  show ?thesis
    using assms
    by (cases "matmul X (sampled wm wr (noise [d, u] g))")
      (simp_all add: ProbabilisticDense_forward_def to_variable_def Let_def dW db
        reparameterize_ok advance_advance)
qed

lemma affine_explicit:
  assumes "shape X = [n, d]" "shape W = [d, u]" "shape b = [u]"
  shows "bind_e (matmul X W) (\<lambda>XW. bind_e (expand_as b XW) (\<lambda>be. t_add XW be))
    = Inr (Tensor [n, u]
        (map (\<lambda>p. (\<Sum>j\<leftarrow>[0..<d]. elems X ! ((p div u) * d + j) * elems W ! (j * u + p mod u))
                   + elems b ! (p mod u)) [0..<n * u]))"
proof -
  have "map2 (+) (map f [0..<N]) (map h [0..<N]) = map (\<lambda>p. f p + h p) [0..<N]"
    for f h :: "nat \<Rightarrow> real" and N
    by (rule nth_equalityI) simp_all
  then show ?thesis
    using assms by (simp add: matmul_def expand_as_def t_add_def pointwise_def)
qed

lemma forward_built_succeeds:
  assumes "built d u l" "shape X = [n, d]"
  shows "\<exists>out l'. ProbabilisticDense_forward l X g = (Inr out, l', advance (d * u + u) g)"
proof -
  from assms(1) obtain wm wr bm br where p:
    "input_dim l = PyInt (int d)" "output_dim l = int u"
    "W_mu l = Some wm" "W_rho l = Some wr" "b_mu l = Some bm" "b_rho l = Some br"
    "shape wm = [d, u]" "shape wr = [d, u]" "shape bm = [u]" "shape br = [u]"
    by (rule builtE)
  show ?thesis
    using forward_explicit [OF p, of X g]
      affine_explicit [OF assms(2), of "sampled wm wr (noise [d, u] g)" u
        "sampled bm br (noise [u] (advance (d * u) g))"] p
    by simp
qed

lemma forward_frame:
  assumes "ProbabilisticDense_forward l X g = (r, l', g')"
  shows "l' = l\<lparr>sample_W := sample_W l', sample_b := sample_b l'\<rparr>"
  using assms
  by (auto simp: ProbabilisticDense_forward_def Let_def split: prod.splits sum.splits)

lemma forward_overwrites:
  assumes "ProbabilisticDense_forward l X g = (Inr out, l', g')"
  shows "ProbabilisticDense_forward (l\<lparr>sample_W := w0, sample_b := b0\<rparr>) X g = (Inr out, l', g')"
  using assms
  by (auto simp: ProbabilisticDense_forward_def Let_def split: prod.splits sum.splits)

lemma params_frame:
  "ProbabilisticDense_params (l\<lparr>sample_W := w, sample_b := b\<rparr>) = ProbabilisticDense_params l"
  by (simp add: ProbabilisticDense_params_def)

lemma forward_params:
  "ProbabilisticDense_params (fst (snd (ProbabilisticDense_forward l X g)))
     = ProbabilisticDense_params l"
proof -
  obtain r l' g' where f: "ProbabilisticDense_forward l X g = (r, l', g')"
    by (cases "ProbabilisticDense_forward l X g") auto
  from forward_frame [OF f] have "ProbabilisticDense_params l' = ProbabilisticDense_params l"
    using params_frame [where l = l] by metis
  then show ?thesis by (simp add: f)
qed

lemma forward_unbuilt:
  assumes "input_dim l = PyNone"
  shows "ProbabilisticDense_forward l X g = (Inl TypeError, l, g)"
  using assms
  by (simp add: ProbabilisticDense_forward_def Let_def draw_eps_def torch_zeros_def)

subsection \<open>Building a layer\<close>

lemma honours_shapeD:
  assumes "honours_shape ini" "ini (map (\<lambda>n. PyInt (int n)) s) fi fo g = (Inr t, g')"
  shows "shape t = s" "wf_tensor t"
  using assms unfolding honours_shape_def by blast+

lemma honours_shape_constant_init: "honours_shape (constant_init v)"
  by (auto simp: honours_shape_def constant_init_def torch_zeros_nat wf_tensor_def)

lemma build_success:
  assumes "ProbabilisticDense_build l d g = (Inr (), l', g')"
  shows "\<exists>t1 t2 t3 t4 g1 g2 g3.
      init l [d, PyInt (output_dim l)] d (PyInt (output_dim l)) g = (Inr t1, g1) \<and>
      init l [d, PyInt (output_dim l)] d (PyInt (output_dim l)) g1 = (Inr t2, g2) \<and>
      init l [PyInt (output_dim l)] d (PyInt (output_dim l)) g2 = (Inr t3, g3) \<and>
      init l [PyInt (output_dim l)] d (PyInt (output_dim l)) g3 = (Inr t4, g') \<and>
      l' = l\<lparr>input_dim := d, W_mu := Some t1, W_rho := Some t2, b_mu := Some t3, b_rho := Some t4\<rparr>"
  using assms
  by (auto simp: ProbabilisticDense_build_def Let_def split: prod.splits sum.splits)

lemma build_built:
  assumes hs: "honours_shape (init l)" and od: "output_dim l = int u"
    and b: "ProbabilisticDense_build l (PyInt (int d)) g = (Inr (), l', g')"
  shows "built d u l'"
proof -
  from build_success [OF b] obtain t1 t2 t3 t4 g1 g2 g3 where
    i1: "init l [PyInt (int d), PyInt (int u)] (PyInt (int d)) (PyInt (int u)) g = (Inr t1, g1)" and
    i2: "init l [PyInt (int d), PyInt (int u)] (PyInt (int d)) (PyInt (int u)) g1 = (Inr t2, g2)" and
    i3: "init l [PyInt (int u)] (PyInt (int d)) (PyInt (int u)) g2 = (Inr t3, g3)" and
    i4: "init l [PyInt (int u)] (PyInt (int d)) (PyInt (int u)) g3 = (Inr t4, g')" and
    l': "l' = l\<lparr>input_dim := PyInt (int d), W_mu := Some t1, W_rho := Some t2,
                  b_mu := Some t3, b_rho := Some t4\<rparr>"
    unfolding od by blast
  have "shape t1 = [d, u]" "wf_tensor t1"
    using honours_shapeD [OF hs, of "[d, u]" _ _ g t1 g1] i1 by simp_all
  moreover have "shape t2 = [d, u]" "wf_tensor t2"
    using honours_shapeD [OF hs, of "[d, u]" _ _ g1 t2 g2] i2 by simp_all
  moreover have "shape t3 = [u]" "wf_tensor t3"
    using honours_shapeD [OF hs, of "[u]" _ _ g2 t3 g3] i3 by simp_all
  moreover have "shape t4 = [u]" "wf_tensor t4"
    using honours_shapeD [OF hs, of "[u]" _ _ g3 t4 g'] i4 by simp_all
  ultimately show ?thesis
    by (simp add: built_def l' od)
qed

subsection \<open>Single-precision rounding\<close>




















subsection \<open>The examples\<close>

lemma constant_init_4_1:
  "constant_init v [PyInt 4, PyInt 1] fi fo g = (Inr (Tensor [4, 1] [v, v, v, v]), g)"
  using torch_zeros_nat [of "[4, 1]"]
  by (simp add: constant_init_def numeral_eq_Suc)

lemma constant_init_1:
  "constant_init v [PyInt 1] fi fo g = (Inr (Tensor [1] [v]), g)"
  using torch_zeros_nat [of "[1]"]
  by (simp add: constant_init_def)

lemma ex_build: "ProbabilisticDense_build ex_unbuilt (PyInt 4) g = (Inr (), ex_layer, g)"
  by (simp add: ProbabilisticDense_build_def ex_unbuilt_def ex_layer_def Let_def
      constant_init_4_1 constant_init_1)

lemma ex_constructor:
  "ProbabilisticDense_init 1 (constant_init (1 / 2)) (PyInt 4) g = (Inr (), ex_layer, g)"
  using ex_build [of g]
  by (simp add: ProbabilisticDense_init_def ProbabilisticDense_build_def ex_unbuilt_def Let_def)

lemma ex_built: "built 4 1 ex_layer"
  by (simp add: built_def ex_layer_def wf_tensor_def)

lemma ex_forward_has_run:
  "forward_has_run (fst (snd (ProbabilisticDense_forward ex_layer ex_X ex_g)))"
proof -
  have "shape ex_X = [2, 4]" by (simp add: ex_X_def)
  from forward_built_succeeds [OF ex_built this, of ex_g]
  obtain out l' where f: "ProbabilisticDense_forward ex_layer ex_X ex_g = (Inr out, l', advance (4 * 1 + 1) ex_g)"
    by blast
  have "\<exists>l0 d u X g out g'. built d u l0 \<and> 0 < d \<and> 0 < u \<and>
      ProbabilisticDense_forward l0 X g = (Inr out, l', g')"
    using ex_built f by (intro exI [of _ ex_layer] exI [of _ "4::nat"] exI [of _ "1::nat"]
        exI [of _ ex_X] exI [of _ ex_g] exI [of _ out] exI [of _ "advance (4 * 1 + 1) ex_g"]) simp
  then show ?thesis
    by (simp add: forward_has_run_def f)
qed

subsection \<open>The log-density and the complexity term\<close>

lemma common_shape_same [simp]: "common_shape [s, s, s] = s"
  by (cases s) (simp_all add: common_shape_def)

lemma common_shape_scalars [simp]: "common_shape [s, [], []] = s"
  by (cases s) (simp_all add: common_shape_def)

lemma log_gaussian_same_shape:
  assumes "shape mu = shape x" "shape sigma = shape x"
  shows "log_gaussian x mu sigma =
    Inr (Tensor (shape x)
      (map (\<lambda>i. log_gaussian1 (elems x ! i) (elems mu ! i) (elems sigma ! i))
         [0..<prod_list (shape x)]))"
  using assms by (simp add: log_gaussian_def broadcast_to_def Let_def)

lemma log_gaussian_scalars:
  "log_gaussian x (scalar m) (scalar sg) =
    Inr (Tensor (shape x) (map (\<lambda>i. log_gaussian1 (elems x ! i) m sg) [0..<prod_list (shape x)]))"
proof (cases "shape x = []")
  case True
  then show ?thesis
    by (simp add: log_gaussian_def broadcast_to_def scalar_def Let_def)
next
  case False
  then have ne: "[] \<noteq> shape x" by auto
  show ?thesis
    using False ne by (simp add: log_gaussian_def broadcast_to_def scalar_def Let_def)
qed

lemma mean_diff:
  "mean (map2 (-) (map f [0..<N]) (map h [0..<N]))
     = sum_list (map f [0..<N]) / real N - sum_list (map h [0..<N]) / real N"
proof -
  have "map2 (-) (map f [0..<N]) (map h [0..<N]) = map (\<lambda>i. f i - h i) [0..<N]"
    by (rule nth_equalityI) simp_all
  then show ?thesis
    by (simp add: mean_def sum_list_subtractf diff_divide_distrib)
qed

lemma tensor_complexity_closed:
  assumes "shape mu = shape x" "shape rho = shape x" "wf_tensor x" "wf_tensor rho"
    "elems x \<noteq> []"
  shows "tensor_complexity x mu rho = Inr (sample_term x mu rho)"
proof -
  let ?N = "length (elems x)"
  have N: "prod_list (shape x) = ?N" and Nr: "length (elems rho) = ?N"
    using assms by (simp_all add: wf_tensor_def)
  have q: "log_gaussian x mu (softplus_t rho) =
      Inr (Tensor (shape x)
        (map (\<lambda>i. log_gaussian1 (elems x ! i) (elems mu ! i) (softplus (elems rho ! i))) [0..<?N]))"
    using log_gaussian_same_shape [of mu x "softplus_t rho"] assms(1,2)
    by (simp add: N softplus_t_def Nr)
  have p: "log_gaussian x (scalar 0) (scalar sigma_prior) =
      Inr (Tensor (shape x) (map (\<lambda>i. log_gaussian1 (elems x ! i) 0 (exp (- 3))) [0..<?N]))"
    by (simp add: log_gaussian_scalars N sigma_prior_def)
  have ne: "0 < ?N" using assms(5) by simp
  show ?thesis
    using ne
    by (simp add: tensor_complexity_def q p t_sub_def pointwise_def mean_t_def mean_diff
        sample_term_def Let_def)
qed

lemma layer_complexity_closed:
  assumes "forward_has_run l"
  shows "layer_complexity l = Inr (layer_term l)"
proof -
  from assms obtain l0 d u X g out g' where
    b: "built d u l0" and pos: "0 < d" "0 < u" and
    f: "ProbabilisticDense_forward l0 X g = (Inr out, l, g')"
    unfolding forward_has_run_def by blast
  from b obtain wm wr bm br where p:
    "input_dim l0 = PyInt (int d)" "output_dim l0 = int u"
    "W_mu l0 = Some wm" "W_rho l0 = Some wr" "b_mu l0 = Some bm" "b_rho l0 = Some br"
    "shape wm = [d, u]" "shape wr = [d, u]" "shape bm = [u]" "shape br = [u]"
    and wf: "wf_tensor wm" "wf_tensor wr" "wf_tensor bm" "wf_tensor br"
    by (rule builtE)
  let ?W = "sampled wm wr (noise [d, u] g)"
  let ?b = "sampled bm br (noise [u] (advance (d * u) g))"
  have l: "l = l0\<lparr>sample_W := Some ?W, sample_b := Some ?b\<rparr>"
    using forward_explicit [OF p, of X g] f by simp
  have lens: "length (elems wm) = d * u" "length (elems wr) = d * u"
    "length (elems bm) = u" "length (elems br) = u"
    using wf p by (simp_all add: wf_tensor_def)
  have lW: "length (elems ?W) = d * u"
    by (rule sampled_length) (simp_all add: lens)
  have lb: "length (elems ?b) = u"
    by (rule sampled_length) (simp_all add: lens)
  have cW: "tensor_complexity ?W wm wr = Inr (sample_term ?W wm wr)"
    using lW pos wf by (intro tensor_complexity_closed) (auto simp: p wf_tensor_def)
  have cb: "tensor_complexity ?b bm br = Inr (sample_term ?b bm br)"
    using lb pos wf by (intro tensor_complexity_closed) (auto simp: p wf_tensor_def)
  show ?thesis
    by (simp add: layer_complexity_def layer_term_def l p cW cb)
qed

lemma complexity_term_closed:
  assumes "\<forall>l\<in>set (bayesian_layers m). layer_complexity l = Inr (layer_term l)"
  shows "complexity_term m = Inr (\<Sum>l\<leftarrow>bayesian_layers m. layer_term l)"
  using assms by (induction m rule: bayesian_layers.induct) simp_all

lemma complexity_no_bayesian:
  "bayesian_layers m = [] \<Longrightarrow> complexity_term m = Inr 0"
  by (induction m rule: bayesian_layers.induct) simp_all

lemma layer_complexity_reads:
  "layer_complexity (l\<lparr>input_dim := d, init := i, units := u, output_dim := od\<rparr>)
     = layer_complexity l"
  by (simp add: layer_complexity_def)

lemma complexity_term_reconfigure:
  "complexity_term (map (reconfigure d i u od) m) = complexity_term m"
  by (induction m rule: bayesian_layers.induct) (simp_all add: layer_complexity_reads)

section \<open>The properties\<close>

subsection \<open>The variational loss\<close>

text \<open>
  C1. For every model whose Bayesian layers are in the state a forward pass leaves (and
  in particular for every such model with at least one Bayesian layer), the variational
  loss does not fail and equals the data term, the negated value of the log-likelihood
  function on the labels and the predictions, plus the sum over the Bayesian layers, and
  over the weight and the bias sample of each, of the mean of
  \<open>log_gaussian(sample, mu, softplus(rho))\<close> minus the mean of
  \<open>log_gaussian(sample, 0, exp(-3))\<close>. The loss is the one modelled from the
  specification; the forward pass is the one of the source.
\<close>

theorem variational_loss_formula:
  assumes "bayesian_layers model \<noteq> []"
    and "\<forall>l\<in>set (bayesian_layers model). forward_has_run l"
  shows "variational_loss true predicted model ll =
     Inr (- ll true predicted + (\<Sum>l\<leftarrow>bayesian_layers model. layer_term l))"
  using assms(2)
  by (simp add: variational_loss_def data_term_def complexity_term_closed layer_complexity_closed)

theorem variational_loss_formula_witness:
  "variational_loss ex_X ex_X
     [Bayesian (fst (snd (ProbabilisticDense_forward ex_layer ex_X ex_g))), Conventional]
     (\<lambda>t p. sum_list (elems p))
   = Inr (- sum_list (elems ex_X)
          + (layer_term (fst (snd (ProbabilisticDense_forward ex_layer ex_X ex_g))) + 0))"
  using variational_loss_formula
    [where model = "[Bayesian (fst (snd (ProbabilisticDense_forward ex_layer ex_X ex_g))),
       Conventional]" and ll = "\<lambda>t p. sum_list (elems p)" and true = ex_X and predicted = ex_X]
    ex_forward_has_run
  by simp

text \<open>
  C7. For every model with no Bayesian layer the variational loss does not fail and is
  exactly the data term: the complexity term is zero.
\<close>

theorem loss_without_bayesian_layers:
  assumes "bayesian_layers model = []"
  shows "variational_loss true predicted model ll = Inr (data_term ll true predicted)
       \<and> complexity_term model = Inr 0"
  using assms by (simp add: variational_loss_def complexity_no_bayesian)

theorem loss_without_bayesian_layers_witness:
  "variational_loss ex_X ex_X [Conventional, Conventional] (\<lambda>t p. sum_list (elems p))
     = Inr (data_term (\<lambda>t p. sum_list (elems p)) ex_X ex_X)
   \<and> complexity_term [Conventional, Conventional] = Inr 0"
  using loss_without_bayesian_layers [of "[Conventional, Conventional]"]
  by simp

subsection \<open>The log-density helper\<close>

text \<open>
  C4. The log-Gaussian density helper is a function of its three arguments alone. On
  arguments of one shape it does not fail, and entry \<open>i\<close> of its result is
  \<open>-log(sigma_i) - 0.5*log(2*pi) - (x_i - mu_i)^2 / (2*sigma_i^2)\<close>. For every mean \<open>m\<close> and
  every positive \<open>s\<close>, the density at \<open>x = m\<close> is \<open>-log(s) - 0.5*log(2*pi)\<close>, for the
  entrywise formula and for the helper on scalars.
\<close>

theorem log_gaussian_density:
  assumes "shape mu = shape x" "shape sigma = shape x" "0 < s"
  shows "(\<exists>r. log_gaussian x mu sigma = Inr r \<and> shape r = shape x \<and>
            length (elems r) = prod_list (shape x) \<and>
            (\<forall>i<prod_list (shape x). elems r ! i =
               - ln (elems sigma ! i) - 0.5 * ln (2 * pi)
               - (elems x ! i - elems mu ! i)\<^sup>2 / (2 * (elems sigma ! i)\<^sup>2)))
       \<and> log_gaussian1 m m s = - ln s - 0.5 * ln (2 * pi)
       \<and> log_gaussian (scalar m) (scalar m) (scalar s) = Inr (scalar (- ln s - 0.5 * ln (2 * pi)))"
proof (intro conjI)
  show "\<exists>r. log_gaussian x mu sigma = Inr r \<and> shape r = shape x \<and>
            length (elems r) = prod_list (shape x) \<and>
            (\<forall>i<prod_list (shape x). elems r ! i =
               - ln (elems sigma ! i) - 0.5 * ln (2 * pi)
               - (elems x ! i - elems mu ! i)\<^sup>2 / (2 * (elems sigma ! i)\<^sup>2))"
    using assms(1,2) by (simp add: log_gaussian_same_shape log_gaussian1_def)
  show "log_gaussian1 m m s = - ln s - 0.5 * ln (2 * pi)"
    by (simp add: log_gaussian1_def)
  show "log_gaussian (scalar m) (scalar m) (scalar s) = Inr (scalar (- ln s - 0.5 * ln (2 * pi)))"
    by (simp add: log_gaussian_scalars) (simp add: scalar_def log_gaussian1_def)
qed

theorem log_gaussian_density_witness:
  "(\<exists>r. log_gaussian (Tensor [2] [1, 1]) (Tensor [2] [5, 3]) (Tensor [2] [4, 5]) = Inr r \<and>
        shape r = [2] \<and>
        elems r ! 0 = - ln 4 - 0.5 * ln (2 * pi) - (1 - 5)\<^sup>2 / (2 * 4\<^sup>2) \<and>
        elems r ! 1 = - ln 5 - 0.5 * ln (2 * pi) - (1 - 3)\<^sup>2 / (2 * 5\<^sup>2))
   \<and> log_gaussian1 5 5 4 = - ln 4 - 0.5 * ln (2 * pi)"
proof -
  have h: "shape (Tensor [2] [5, 3]) = shape (Tensor [2] [1, 1])"
    "shape (Tensor [2] [4, 5]) = shape (Tensor [2] [1, 1])" "(0::real) < 4"
    by simp_all
  from log_gaussian_density [OF h, of 5] show ?thesis
    by auto
qed

subsection \<open>The scale of the posterior\<close>




subsection \<open>The forward pass of \<^verbatim>\<open>ProbabilisticDense\<close>\<close>

text \<open>
  C2. For every built layer of input width \<open>d\<close> and output width \<open>u\<close> and every input
  \<open>X\<close> of shape \<open>[n, d]\<close>, the forward pass returns a tensor of shape \<open>[n, u]\<close> whose
  entry \<open>(i, c)\<close> is the sum over \<open>j < d\<close> of
  \<open>X[i, j] * (W_mu[j, c] + softplus(W_rho[j, c]) * eps_W[j, c])\<close> plus
  \<open>b_mu[c] + softplus(b_rho[c]) * eps_b[c]\<close>, where \<open>eps_W\<close> and \<open>eps_b\<close> are the noise
  tensors drawn during that call. That is
  \<open>X @ (W_mu + softplus(W_rho) * eps_W) + broadcast(b_mu + softplus(b_rho) * eps_b)\<close>.
\<close>

theorem forward_affine:
  assumes params: "W_mu l = Some wm" "W_rho l = Some wr" "b_mu l = Some bm" "b_rho l = Some br"
    and dims: "input_dim l = PyInt (int d)" "output_dim l = int u"
    and shapes: "shape wm = [d, u]" "shape wr = [d, u]" "shape bm = [u]" "shape br = [u]"
    and wf: "wf_tensor wm" "wf_tensor wr" "wf_tensor bm" "wf_tensor br"
    and X: "shape X = [n, d]" "wf_tensor X"
    and eps_W: "draw_eps [input_dim l, PyInt (output_dim l)] g = (Inr eps_W, g1)"
    and eps_b: "draw_eps [PyInt (output_dim l)] g1 = (Inr eps_b, g2)"
  shows "\<exists>out l'. ProbabilisticDense_forward l X g = (Inr out, l', g2) \<and>
      shape out = [n, u] \<and> wf_tensor out \<and>
      (\<forall>i<n. \<forall>c<u. elems out ! (i * u + c) =
         (\<Sum>j\<leftarrow>[0..<d]. elems X ! (i * d + j) *
            (elems wm ! (j * u + c) + softplus (elems wr ! (j * u + c)) * elems eps_W ! (j * u + c)))
         + (elems bm ! c + softplus (elems br ! c) * elems eps_b ! c))"
proof -
  have eW: "eps_W = noise [d, u] g" and g1: "g1 = advance (d * u) g"
    using eps_W dims draw_eps_nat [of "[d, u]" g] by simp_all
  have eb: "eps_b = noise [u] g1" and g2: "g2 = advance (d * u + u) g"
    using eps_b dims draw_eps_nat [of "[u]" g1] by (simp_all add: g1 advance_advance)
  let ?W = "sampled wm wr eps_W" and ?b = "sampled bm br eps_b"
  let ?out = "Tensor [n, u]
        (map (\<lambda>p. (\<Sum>j\<leftarrow>[0..<d]. elems X ! ((p div u) * d + j) * elems ?W ! (j * u + p mod u))
                   + elems ?b ! (p mod u)) [0..<n * u])"
  have fw: "ProbabilisticDense_forward l X g =
      (Inr ?out, l\<lparr>sample_W := Some ?W, sample_b := Some ?b\<rparr>, g2)"
    using forward_explicit [OF dims params shapes, of X g]
      affine_explicit [OF X(1), of ?W u ?b] shapes
    by (simp add: eW eb g1 g2)
  have lens: "length (elems wm) = d * u" "length (elems wr) = d * u"
    "length (elems bm) = u" "length (elems br) = u"
    using wf shapes by (simp_all add: wf_tensor_def)
  have entry: "elems ?out ! (i * u + c) =
         (\<Sum>j\<leftarrow>[0..<d]. elems X ! (i * d + j) *
            (elems wm ! (j * u + c) + softplus (elems wr ! (j * u + c)) * elems eps_W ! (j * u + c)))
         + (elems bm ! c + softplus (elems br ! c) * elems eps_b ! c)"
    if "i < n" "c < u" for i c
  proof -
    have p: "i * u + c < n * u" using that by (rule idx_lt)
    have W: "elems ?W ! (j * u + c) =
        elems wm ! (j * u + c) + softplus (elems wr ! (j * u + c)) * elems eps_W ! (j * u + c)"
      if "j < d" for j
      using sampled_nth [of wm "d * u" wr eps_W "j * u + c"] lens idx_lt [OF that \<open>c < u\<close>]
      by (simp add: eW)
    have b: "elems ?b ! c = elems bm ! c + softplus (elems br ! c) * elems eps_b ! c"
      using sampled_nth [of bm u br eps_b c] lens \<open>c < u\<close> by (simp add: eb)
    have "(\<Sum>j\<leftarrow>[0..<d]. elems X ! (i * d + j) * elems ?W ! (j * u + c)) =
        (\<Sum>j\<leftarrow>[0..<d]. elems X ! (i * d + j) *
            (elems wm ! (j * u + c) + softplus (elems wr ! (j * u + c)) * elems eps_W ! (j * u + c)))"
      by (rule arg_cong [where f = sum_list], rule map_cong [OF refl]) (simp add: W)
    then show ?thesis
      using p that by (simp add: idx_div idx_mod b)
  qed
  have "shape ?out = [n, u]" "wf_tensor ?out"
    by (simp_all add: wf_tensor_def)
  with fw entry show ?thesis by blast
qed

theorem forward_affine_witness:
  "\<exists>out l'. ProbabilisticDense_forward ex_layer ex_X ex_g = (Inr out, l', advance 5 ex_g) \<and>
      shape out = [2, 1] \<and> wf_tensor out"
proof -
  have p: "W_mu ex_layer = Some (Tensor [4, 1] [1 / 2, 1 / 2, 1 / 2, 1 / 2])"
    "W_rho ex_layer = Some (Tensor [4, 1] [1 / 2, 1 / 2, 1 / 2, 1 / 2])"
    "b_mu ex_layer = Some (Tensor [1] [1 / 2])" "b_rho ex_layer = Some (Tensor [1] [1 / 2])"
    by (simp_all add: ex_layer_def)
  have d: "input_dim ex_layer = PyInt (int 4)" "output_dim ex_layer = int 1"
    by (simp_all add: ex_layer_def)
  have s: "shape (Tensor [4, 1] [1 / 2, 1 / 2, 1 / 2, 1 / 2]) = [4, 1]"
    "shape (Tensor [4, 1] [1 / 2, 1 / 2, 1 / 2, 1 / 2]) = [4, 1]"
    "shape (Tensor [1] [1 / 2]) = [1]" "shape (Tensor [1] [1 / 2]) = [1]"
    by simp_all
  have w: "wf_tensor (Tensor [4, 1] [1 / 2, 1 / 2, 1 / 2, 1 / 2])"
    "wf_tensor (Tensor [4, 1] [1 / 2, 1 / 2, 1 / 2, 1 / 2])"
    "wf_tensor (Tensor [1] [1 / 2])" "wf_tensor (Tensor [1] [1 / 2])"
    by (simp_all add: wf_tensor_def)
  have x: "shape ex_X = [2, 4]" "wf_tensor ex_X"
    by (simp_all add: ex_X_def wf_tensor_def)
  have eW: "draw_eps [input_dim ex_layer, PyInt (output_dim ex_layer)] ex_g
      = (Inr (noise [4, 1] ex_g), advance 4 ex_g)"
    using draw_eps_nat [of "[4, 1]" ex_g] by (simp add: ex_layer_def)
  have eb: "draw_eps [PyInt (output_dim ex_layer)] (advance 4 ex_g)
      = (Inr (noise [1] (advance 4 ex_g)), advance 5 ex_g)"
    using draw_eps_nat [of "[1]" "advance 4 ex_g"] by (simp add: ex_layer_def advance_advance)
  from forward_affine [OF p d s w x eW eb] show ?thesis
    by blast
qed

text \<open>
  C5. Whatever a forward call returns, the layer it leaves differs from the layer it
  found in the two sample slots alone: the four parameters, the input width, the units
  and the output width are unchanged. A call that returns a tensor returns the same
  tensor, and leaves the same layer, whatever the two slots held before: the slots are
  overwritten, not accumulated. The variational loss, as modelled from the
  specification, is a function of the model alone, with no layer and no generator among
  its results, and of a layer it reads the parameters and the samples only.
\<close>

theorem forward_writes_only_samples:
  "(\<forall>r l' g'. ProbabilisticDense_forward l X g = (r, l', g') \<longrightarrow>
      l' = l\<lparr>sample_W := sample_W l', sample_b := sample_b l'\<rparr> \<and>
      W_mu l' = W_mu l \<and> W_rho l' = W_rho l \<and> b_mu l' = b_mu l \<and> b_rho l' = b_rho l \<and>
      input_dim l' = input_dim l \<and> units l' = units l \<and> output_dim l' = output_dim l \<and>
      (\<forall>out. r = Inr out \<longrightarrow>
         ProbabilisticDense_forward (l\<lparr>sample_W := w0, sample_b := b0\<rparr>) X g = (r, l', g')))
   \<and> variational_loss true predicted (map (reconfigure d i u od) model) ll
       = variational_loss true predicted model ll"
proof (intro conjI allI impI)
  fix r l' g'
  assume f: "ProbabilisticDense_forward l X g = (r, l', g')"
  from forward_frame [OF f]
  show fr: "l' = l\<lparr>sample_W := sample_W l', sample_b := sample_b l'\<rparr>" .
  show "W_mu l' = W_mu l" by (subst fr) simp
  show "W_rho l' = W_rho l" by (subst fr) simp
  show "b_mu l' = b_mu l" by (subst fr) simp
  show "b_rho l' = b_rho l" by (subst fr) simp
  show "input_dim l' = input_dim l" by (subst fr) simp
  show "units l' = units l" by (subst fr) simp
  show "output_dim l' = output_dim l" by (subst fr) simp
  fix out
  assume "r = Inr out"
  with f forward_overwrites [where l = l and X = X and g = g and out = out and l' = l' and g' = g' and ?w0.0 = w0 and ?b0.0 = b0]
  show "ProbabilisticDense_forward (l\<lparr>sample_W := w0, sample_b := b0\<rparr>) X g = (r, l', g')"
    by simp
next
  show "variational_loss true predicted (map (reconfigure d i u od) model) ll
       = variational_loss true predicted model ll"
    by (simp add: variational_loss_def complexity_term_reconfigure)
qed

theorem forward_writes_only_samples_witness:
  "\<exists>out l'. ProbabilisticDense_forward ex_layer ex_X ex_g = (Inr out, l', advance 5 ex_g) \<and>
     ProbabilisticDense_forward (ex_layer\<lparr>sample_W := Some ex_X, sample_b := Some ex_X\<rparr>) ex_X ex_g
       = (Inr out, l', advance 5 ex_g) \<and>
     W_mu l' = W_mu ex_layer \<and> b_rho l' = b_rho ex_layer \<and> input_dim l' = PyInt 4"
proof -
  have "shape ex_X = [2, 4]" by (simp add: ex_X_def)
  from forward_built_succeeds [OF ex_built this, of ex_g]
  obtain out l' where f: "ProbabilisticDense_forward ex_layer ex_X ex_g = (Inr out, l', advance 5 ex_g)"
    by auto
  from forward_writes_only_samples [where l = ex_layer and X = ex_X and g = ex_g
      and ?w0.0 = "Some ex_X" and ?b0.0 = "Some ex_X"] f
  have "ProbabilisticDense_forward (ex_layer\<lparr>sample_W := Some ex_X, sample_b := Some ex_X\<rparr>) ex_X ex_g
       = (Inr out, l', advance 5 ex_g)"
    and "W_mu l' = W_mu ex_layer" "b_rho l' = b_rho ex_layer" "input_dim l' = input_dim ex_layer"
    by blast+
  with f show ?thesis
    by (intro exI [of _ out] exI [of _ l']) (simp add: ex_layer_def)
qed

subsection \<open>Building and the parameters\<close>

text \<open>
  C8. \<^verbatim>\<open>Dense.build\<close> rejects an input dimension that is not an int with an
  \<^verbatim>\<open>AssertionError\<close> and leaves the layer as it was. \<^verbatim>\<open>ProbabilisticDense.build\<close>
  has no such check: it stores whatever it is given as \<^verbatim>\<open>input_dim\<close> and calls the
  initializer. With an initializer that returns a tensor for the non-integer shape, the
  build succeeds and allocates the four parameters. With an initializer that allocates
  the requested shape, the exception is the initializer's \<^verbatim>\<open>TypeError\<close>, and the layer
  is left with the non-integer input dimension.
\<close>

theorem probabilistic_build_accepts_non_integer:
  "Dense_build s (PyFloat (5 / 2)) = (Inl AssertionError, s)
   \<and> ProbabilisticDense_build (l\<lparr>init := fixed_init t\<rparr>) (PyFloat (5 / 2)) g
       = (Inr (), l\<lparr>input_dim := PyFloat (5 / 2), init := fixed_init t, W_mu := Some t,
                    W_rho := Some t, b_mu := Some t, b_rho := Some t\<rparr>, g)
   \<and> ProbabilisticDense_build (l\<lparr>init := constant_init c\<rparr>) (PyFloat (5 / 2)) g
       = (Inl TypeError, l\<lparr>input_dim := PyFloat (5 / 2), init := constant_init c\<rparr>, g)
   \<and> input_dim (fst (snd (ProbabilisticDense_build l v g))) = v"
proof (intro conjI)
  show "ProbabilisticDense_build (l\<lparr>init := constant_init c\<rparr>) (PyFloat (5 / 2)) g
       = (Inl TypeError, l\<lparr>input_dim := PyFloat (5 / 2), init := constant_init c\<rparr>, g)"
    by (simp add: ProbabilisticDense_build_def Let_def constant_init_def torch_zeros_def)
  show "Dense_build s (PyFloat (5 / 2)) = (Inl AssertionError, s)"
    by (simp add: Dense_build_def)
  show "ProbabilisticDense_build (l\<lparr>init := fixed_init t\<rparr>) (PyFloat (5 / 2)) g
       = (Inr (), l\<lparr>input_dim := PyFloat (5 / 2), init := fixed_init t, W_mu := Some t,
                    W_rho := Some t, b_mu := Some t, b_rho := Some t\<rparr>, g)"
    by (simp add: ProbabilisticDense_build_def Let_def fixed_init_def)
  show "input_dim (fst (snd (ProbabilisticDense_build l v g))) = v"
    by (simp add: ProbabilisticDense_build_def Let_def split: prod.splits sum.splits)
qed

text \<open>
  C9. A layer constructed without an input dimension is not built by its constructor,
  and every forward call on it fails: \<^verbatim>\<open>torch.zeros(None, units)\<close> raises a
  \<^verbatim>\<open>TypeError\<close>. No tensor is returned; the layer and the generator are as before.
\<close>

theorem forward_before_build_fails:
  "(case ProbabilisticDense_init u ini PyNone g of
      (r, l, g') \<Rightarrow>
        r = Inr () \<and> g' = g \<and> input_dim l = PyNone \<and> W_mu l = None \<and>
        ProbabilisticDense_forward l X g2 = (Inl TypeError, l, g2))"
  by (simp add: ProbabilisticDense_init_def forward_unbuilt)

theorem forward_before_build_fails_witness:
  "ProbabilisticDense_init 1 (constant_init (1 / 2)) PyNone ex_g = (Inr (), ex_unbuilt, ex_g)
   \<and> ProbabilisticDense_forward ex_unbuilt ex_X ex_g = (Inl TypeError, ex_unbuilt, ex_g)"
  using forward_before_build_fails [where u = 1 and ini = "constant_init (1 / 2)" and g = ex_g
      and X = ex_X and ?g2.0 = ex_g]
  by (simp add: ProbabilisticDense_init_def ex_unbuilt_def)

text \<open>
  C10. On a layer that the constructor did not build (its input dimension was \<^verbatim>\<open>None\<close>
  or zero), \<^verbatim>\<open>params\<close> raises an \<^verbatim>\<open>AttributeError\<close>, also after a forward call. Once
  \<^verbatim>\<open>build(d)\<close> has returned, with an initializer that honours the requested shape,
  \<^verbatim>\<open>params\<close> is the list of exactly the four tensors \<open>W_mu\<close>, \<open>W_rho\<close>, \<open>b_mu\<close>, \<open>b_rho\<close>
  in this order, of shapes \<open>[d, units]\<close>, \<open>[d, units]\<close>, \<open>[units]\<close>, \<open>[units]\<close>, and it
  is the same list after a forward call: the samples and the noise never enter it.
\<close>

theorem params_contract:
  "(\<not> truthy d0 \<longrightarrow>
      (case ProbabilisticDense_init u0 ini d0 g0 of (r, l0, g0') \<Rightarrow>
         r = Inr () \<and> ProbabilisticDense_params l0 = Inl AttributeError \<and>
         ProbabilisticDense_params (fst (snd (ProbabilisticDense_forward l0 X g2)))
           = Inl AttributeError))
   \<and> (honours_shape (init l) \<and> output_dim l = units l \<and> units l = int u \<and>
        ProbabilisticDense_build l (PyInt (int d)) g = (Inr (), l', g') \<longrightarrow>
      (\<exists>wm wr bm br.
         W_mu l' = Some wm \<and> W_rho l' = Some wr \<and> b_mu l' = Some bm \<and> b_rho l' = Some br \<and>
         ProbabilisticDense_params l' = Inr [wm, wr, bm, br] \<and>
         shape wm = [d, u] \<and> shape wr = [d, u] \<and> shape bm = [u] \<and> shape br = [u] \<and>
         ProbabilisticDense_params (fst (snd (ProbabilisticDense_forward l' X g2)))
           = Inr [wm, wr, bm, br]))"
proof (intro conjI impI)
  assume "\<not> truthy d0"
  then have i: "ProbabilisticDense_init u0 ini d0 g0 =
      (Inr (), \<lparr>input_dim = d0, init = ini, units = u0, output_dim = u0,
                  W_mu = None, W_rho = None, b_mu = None, b_rho = None,
                  sample_W = None, sample_b = None\<rparr>, g0)"
    by (simp add: ProbabilisticDense_init_def)
  show "case ProbabilisticDense_init u0 ini d0 g0 of (r, l0, g0') \<Rightarrow>
         r = Inr () \<and> ProbabilisticDense_params l0 = Inl AttributeError \<and>
         ProbabilisticDense_params (fst (snd (ProbabilisticDense_forward l0 X g2)))
           = Inl AttributeError"
    unfolding i by (simp add: forward_params) (simp add: ProbabilisticDense_params_def)
next
  assume a: "honours_shape (init l) \<and> output_dim l = units l \<and> units l = int u \<and>
        ProbabilisticDense_build l (PyInt (int d)) g = (Inr (), l', g')"
  then have "built d u l'"
    using build_built [of l u d g l' g'] by simp
  then obtain wm wr bm br where p:
    "W_mu l' = Some wm" "W_rho l' = Some wr" "b_mu l' = Some bm" "b_rho l' = Some br"
    "shape wm = [d, u]" "shape wr = [d, u]" "shape bm = [u]" "shape br = [u]"
    by (rule builtE)
  have "ProbabilisticDense_params l' = Inr [wm, wr, bm, br]"
    by (simp add: ProbabilisticDense_params_def p)
  with p forward_params [of l' X g2] show "\<exists>wm wr bm br.
         W_mu l' = Some wm \<and> W_rho l' = Some wr \<and> b_mu l' = Some bm \<and> b_rho l' = Some br \<and>
         ProbabilisticDense_params l' = Inr [wm, wr, bm, br] \<and>
         shape wm = [d, u] \<and> shape wr = [d, u] \<and> shape bm = [u] \<and> shape br = [u] \<and>
         ProbabilisticDense_params (fst (snd (ProbabilisticDense_forward l' X g2)))
           = Inr [wm, wr, bm, br]"
    by simp
qed

theorem params_contract_witness:
  "ProbabilisticDense_init 1 (constant_init (1 / 2)) PyNone ex_g = (Inr (), ex_unbuilt, ex_g)
   \<and> ProbabilisticDense_params ex_unbuilt = Inl AttributeError
   \<and> ProbabilisticDense_build ex_unbuilt (PyInt 4) ex_g = (Inr (), ex_layer, ex_g)
   \<and> ProbabilisticDense_params ex_layer
       = Inr [Tensor [4, 1] [1 / 2, 1 / 2, 1 / 2, 1 / 2], Tensor [4, 1] [1 / 2, 1 / 2, 1 / 2, 1 / 2],
              Tensor [1] [1 / 2], Tensor [1] [1 / 2]]
   \<and> ProbabilisticDense_params (fst (snd (ProbabilisticDense_forward ex_layer ex_X ex_g)))
       = ProbabilisticDense_params ex_layer"
proof -
  have i: "ProbabilisticDense_init 1 (constant_init (1 / 2)) PyNone ex_g = (Inr (), ex_unbuilt, ex_g)"
    by (simp add: ProbabilisticDense_init_def ex_unbuilt_def)
  have h: "honours_shape (init ex_unbuilt)" "output_dim ex_unbuilt = units ex_unbuilt"
    "units ex_unbuilt = int 1"
    "ProbabilisticDense_build ex_unbuilt (PyInt (int 4)) ex_g = (Inr (), ex_layer, ex_g)"
    using ex_build [of ex_g] by (simp_all add: ex_unbuilt_def honours_shape_constant_init)
  note c = params_contract [where ?d0.0 = PyNone and ?u0.0 = 1 and ini = "constant_init (1 / 2)"
      and ?g0.0 = ex_g and X = ex_X and ?g2.0 = ex_g and l = ex_unbuilt and u = 1 and d = 4
      and g = ex_g and l' = ex_layer and g' = ex_g]
  from c i have "ProbabilisticDense_params ex_unbuilt = Inl AttributeError"
    by simp
  moreover from c h have "\<exists>wm wr bm br.
      W_mu ex_layer = Some wm \<and> W_rho ex_layer = Some wr \<and>
      b_mu ex_layer = Some bm \<and> b_rho ex_layer = Some br \<and>
      ProbabilisticDense_params ex_layer = Inr [wm, wr, bm, br] \<and>
      ProbabilisticDense_params (fst (snd (ProbabilisticDense_forward ex_layer ex_X ex_g)))
        = Inr [wm, wr, bm, br]"
    by auto
  then have "ProbabilisticDense_params ex_layer
       = Inr [Tensor [4, 1] [1 / 2, 1 / 2, 1 / 2, 1 / 2], Tensor [4, 1] [1 / 2, 1 / 2, 1 / 2, 1 / 2],
              Tensor [1] [1 / 2], Tensor [1] [1 / 2]]
     \<and> ProbabilisticDense_params (fst (snd (ProbabilisticDense_forward ex_layer ex_X ex_g)))
       = ProbabilisticDense_params ex_layer"
    by (auto simp: ex_layer_def)
  ultimately show ?thesis
    using i ex_build [of ex_g] by simp
qed

end
